theory Spec2Isabelle
  imports Complex_Main "HOL-Library.Word"
begin

section \<open>The F5 TTS API server (\<open>src/f5_tts/api_server.py\<close>)\<close>

text \<open>
  A shallow embedding of the request-handling pipeline of \<open>api_server.py\<close>: the request
  model \<open>TTSRequest\<close>, the character store (\<open>_scan_characters\<close>, \<open>_get_character_paths\<close>),
  the configuration loader and the \<open>/tts\<close> handler \<open>text_to_speech\<close>.

  Conventions.
  \<^item> A Python \<open>str\<close> is the list of its Unicode code points (\<open>pystr\<close>); \<open>py\<close> turns an
    ASCII literal into one. Python \<open>float\<close> defaults are the reals their literals denote;
    no arithmetic is done on them.
  \<^item> A raised exception is the \<open>Inl\<close> of a sum type. The type \<open>exc\<close> holds instances of
    \<open>Exception\<close> only, which is what the handler's \<open>except Exception\<close> clause catches.
  \<^item> Library calls whose code is not part of the repository (the synthesis engine, the
    audio encoder, \<open>urllib.parse.unquote\<close>, text decoding, \<open>tempfile\<close>, the rendering
    \<open>str(e)\<close> of an \<open>HTTPException\<close>) are fields of the environment record \<open>env\<close>.
  \<^item> Leading underscores of Python names are dropped.
\<close>

subsection \<open>Strings\<close>

type_synonym pystr = "nat list"

type_synonym byte = "8 word"

definition py :: "string \<Rightarrow> pystr" where
  "py s = map of_char s"

text \<open>
  \<open>str.isspace\<close> of one code point, as \<open>str.strip()\<close> without arguments uses it: the ASCII
  whitespace \<open>\t \n \v \f \r\<close>, \<open>0x1c\<close> to \<open>0x1f\<close> and the space, and the Unicode white
  space above the ASCII range.
\<close>

definition isspace :: "nat \<Rightarrow> bool" where
  "isspace c \<longleftrightarrow>
     (9 \<le> c \<and> c \<le> 13) \<or> (28 \<le> c \<and> c \<le> 32) \<or> c = 133 \<or> c = 160 \<or> c = 5760 \<or>
     (8192 \<le> c \<and> c \<le> 8202) \<or> c = 8232 \<or> c = 8233 \<or> c = 8239 \<or> c = 8287 \<or> c = 12288"

definition strip :: "pystr \<Rightarrow> pystr" where
  "strip s = rev (dropWhile isspace (rev (dropWhile isspace s)))"

subsection \<open>The request model \<open>TTSRequest\<close>\<close>

record TTSRequest =
  "text" :: pystr
  character :: pystr
  emotion :: pystr
  text_language :: pystr
  format :: pystr
  top_k :: real
  top_p :: real
  batch_size :: int
  speed :: real
  temperature :: real
  save_temp :: bool
  stream :: bool

text \<open>
  The keyword arguments of a call \<open>TTSRequest(...)\<close> (equally, the fields of a JSON body):
  each may be given or left out.
\<close>

record kwargs =
  k_text :: "pystr option"
  k_character :: "pystr option"
  k_emotion :: "pystr option"
  k_text_language :: "pystr option"
  k_format :: "pystr option"
  k_top_k :: "real option"
  k_top_p :: "real option"
  k_batch_size :: "int option"
  k_speed :: "real option"
  k_temperature :: "real option"
  k_save_temp :: "bool option"
  k_stream :: "bool option"

definition no_kwargs :: kwargs where
  "no_kwargs = \<lparr>k_text = None, k_character = None, k_emotion = None, k_text_language = None,
     k_format = None, k_top_k = None, k_top_p = None, k_batch_size = None, k_speed = None,
     k_temperature = None, k_save_temp = None, k_stream = None\<rparr>"

text \<open>
  Exceptions: the \<open>HTTPException\<close> of the web framework with its status code and detail,
  and any other \<open>Exception\<close>, given by its class name and its message \<open>str(e)\<close>.
\<close>

datatype exc =
    HTTPException nat pystr
  | PyException string pystr

text \<open>The default of \<open>text_language\<close>, the five code points of its Chinese literal.\<close>

definition default_text_language :: pystr where
  "default_text_language = [0x591A, 0x8BED, 0x79CD, 0x6DF7, 0x5408]"

definition or_default :: "'a option \<Rightarrow> 'a \<Rightarrow> 'a" where
  "or_default v d = (case v of None \<Rightarrow> d | Some x \<Rightarrow> x)"

text \<open>
  The constructor of the pydantic model: \<open>text\<close> has no default and is required, every
  other field falls back to the default written in the class body.
\<close>

definition TTSRequest_init :: "kwargs \<Rightarrow> exc + TTSRequest" where
  "TTSRequest_init kw =
     (case k_text kw of
        None \<Rightarrow> Inl (PyException ''ValidationError'' (py ''text: field required''))
      | Some t \<Rightarrow> Inr
          \<lparr>text = t,
           character = or_default (k_character kw) (py ''default''),
           emotion = or_default (k_emotion kw) (py ''default''),
           text_language = or_default (k_text_language kw) default_text_language,
           format = or_default (k_format kw) (py ''wav''),
           top_k = or_default (k_top_k kw) 50.0,
           top_p = or_default (k_top_p kw) 0.95,
           batch_size = or_default (k_batch_size kw) 1,
           speed = or_default (k_speed kw) 1.0,
           temperature = or_default (k_temperature kw) 0.7,
           save_temp = or_default (k_save_temp kw) False,
           stream = or_default (k_stream kw) False\<rparr>)"

subsection \<open>Paths and the file system\<close>

text \<open>
  A \<open>pathlib\<close> path on a POSIX system: its root (\<open>""\<close>, \<open>"/"\<close> or \<open>"//"\<close>; there is no
  drive) and the list of its other components.
\<close>

record ppath =
  anchor :: pystr
  tail :: "pystr list"

text \<open>\<open>s.split(sep)\<close> for a separator of one character.\<close>

fun split_on :: "nat \<Rightarrow> pystr \<Rightarrow> pystr list" where
  "split_on c [] = [[]]"
| "split_on c (x # xs) =
     (if x = c then [] # split_on c xs
      else (case split_on c xs of [] \<Rightarrow> [[x]] | w # ws \<Rightarrow> (x # w) # ws))"

fun join_with :: "pystr \<Rightarrow> pystr list \<Rightarrow> pystr" where
  "join_with sep [] = []"
| "join_with sep [x] = x"
| "join_with sep (x # y # ys) = x @ sep @ join_with sep (y # ys)"

text \<open>
  \<open>posixpath.splitroot\<close>: no leading slash, no root; exactly two leading slashes are kept
  as the root \<open>"//"\<close>; one, or three and more, give the root \<open>"/"\<close>.
\<close>

definition splitroot :: "pystr \<Rightarrow> pystr \<times> pystr" where
  "splitroot p =
     (if take 1 p \<noteq> py ''/'' then ([], p)
      else if take 1 (drop 1 p) \<noteq> py ''/'' \<or> take 1 (drop 2 p) = py ''/'' then (py ''/'', drop 1 p)
      else (py ''//'', drop 2 p))"

text \<open>Parsing a string into a path drops empty components and \<open>"."\<close>, and keeps \<open>".."\<close>.\<close>

definition parse_path :: "pystr \<Rightarrow> ppath" where
  "parse_path s =
     (case splitroot s of (r, rel) \<Rightarrow>
        \<lparr>anchor = r, tail = filter (\<lambda>x. x \<noteq> [] \<and> x \<noteq> py ''.'') (split_on 47 rel)\<rparr>)"

text \<open>The operator \<open>path / s\<close>: a segment with a root replaces the path on its left.\<close>

definition joinpath :: "ppath \<Rightarrow> pystr \<Rightarrow> ppath" where
  "joinpath p s =
     (let q = parse_path s
      in if anchor q \<noteq> [] then q else \<lparr>anchor = anchor p, tail = tail p @ tail q\<rparr>)"

definition str_path :: "ppath \<Rightarrow> pystr" where
  "str_path p =
     (if anchor p = [] \<and> tail p = [] then py ''.''
      else anchor p @ join_with (py ''/'') (tail p))"

text \<open>
  The file system is a tree: a regular file with its bytes, or a directory with its
  entries. There are no symbolic links and no permissions.
\<close>

datatype node = File "byte list" | Dir "(pystr \<times> node) list"

fun is_dir_node :: "node \<Rightarrow> bool" where
  "is_dir_node (Dir es) = True"
| "is_dir_node (File bs) = False"

text \<open>
  How examining a path can fail. Python refuses a file name it cannot hand to the
  operating system: one that \<open>os.fsencode\<close> cannot encode (a surrogate code point other
  than the escapes \<open>U+DC80\<close> to \<open>U+DCFF\<close>) or one with a null character. The operating
  system answers \<open>ENOENT\<close>, \<open>ENOTDIR\<close> or \<open>ENAMETOOLONG\<close>.
\<close>

datatype stat_error = Unencodable | NullByte | ENOENT | ENOTDIR | ENAMETOOLONG

text \<open>
  The length in bytes of a file name: that of its UTF-8 encoding, where an escape
  \<open>U+DC80\<close> to \<open>U+DCFF\<close> stands for one byte. The limits are those of Linux: a component
  has at most \<open>NAME_MAX\<close> bytes, a path fewer than \<open>PATH_MAX\<close>.
\<close>

definition utf8_len :: "nat \<Rightarrow> nat" where
  "utf8_len c =
     (if c < 0x80 then 1 else if c < 0x800 then 2
      else if 0xDC80 \<le> c \<and> c \<le> 0xDCFF then 1
      else if c < 0x10000 then 3 else 4)"

definition byte_len :: "pystr \<Rightarrow> nat" where
  "byte_len s = sum_list (map utf8_len s)"

definition encodable :: "pystr \<Rightarrow> bool" where
  "encodable s = list_all (\<lambda>c. c < 0xD800 \<or> 0xDFFF < c \<or> (0xDC80 \<le> c \<and> c \<le> 0xDCFF)) s"

definition NAME_MAX :: nat where
  "NAME_MAX = 255"

definition PATH_MAX :: nat where
  "PATH_MAX = 4096"

text \<open>
  Resolving the components of a path from a directory, as the operating system does:
  \<open>walk cur anc cs\<close> starts in \<open>cur\<close>, whose ancestors \<open>anc\<close> are listed from the parent
  upwards, each with the name of the entry below it. Nothing can be resolved below a
  regular file (\<open>ENOTDIR\<close>); \<open>".."\<close> moves to the parent (and stays at the root); a name
  of more than \<open>NAME_MAX\<close> bytes is refused (\<open>ENAMETOOLONG\<close>); any other name moves to
  that entry, or fails when there is none (\<open>ENOENT\<close>). The result is the node reached,
  with its ancestors.
\<close>

fun walk :: "node \<Rightarrow> (pystr \<times> node) list \<Rightarrow> pystr list \<Rightarrow> stat_error + ((pystr \<times> node) list \<times> node)" where
  "walk cur anc [] = Inr (anc, cur)"
| "walk (File bs) anc (c # cs) = Inl ENOTDIR"
| "walk (Dir es) anc (c # cs) =
     (if c = py ''..'' then
        (case anc of [] \<Rightarrow> walk (Dir es) [] cs | (n, parent) # up \<Rightarrow> walk parent up cs)
      else if NAME_MAX < byte_len c then Inl ENAMETOOLONG
      else
        (case map_of es c of None \<Rightarrow> Inl ENOENT | Some child \<Rightarrow> walk child ((c, Dir es) # anc) cs))"

subsection \<open>The server and its collaborators\<close>

text \<open>The keyword arguments of one call of \<open>F5TTS.infer\<close>.\<close>

record infer_args =
  ref_file :: pystr
  ref_text :: "pystr option"
  gen_text :: pystr
  infer_speed :: real
  remove_silence :: bool

text \<open>
  What a \<open>TTSServer\<close> holds and what it calls:
  \<^item> \<open>disk\<close>, the root directory of the file system, and \<open>cwd\<close>, the components of the
    working directory, against which a relative path is resolved;
  \<^item> \<open>character_dir\<close> and \<open>params_config\<close>, set by \<open>__init__\<close>;
  \<^item> \<open>unquote\<close>, that is \<open>urllib.parse.unquote\<close>;
  \<^item> \<open>read_utf8\<close>, what \<open>f.read()\<close> returns for the bytes of a file opened with
    \<open>open(p, "r", encoding="utf-8")\<close>, or the exception it raises;
  \<^item> \<open>tmp_name\<close>, the name of the file that \<open>tempfile.NamedTemporaryFile\<close> creates for a
    suffix, or the exception it raises;
  \<^item> \<open>infer\<close>, the engine: a waveform (of type \<open>'w\<close>) and a sample rate, or an exception;
  \<^item> \<open>sf_write\<close>, the bytes that \<open>soundfile.write\<close> puts into the file of a given name,
    or the exception it raises;
  \<^item> \<open>str_HTTPException\<close>, the rendering \<open>str(e)\<close> of an \<open>HTTPException\<close>.
\<close>

record 'w env =
  disk :: node
  cwd :: "pystr list"
  character_dir :: ppath
  params_config :: "pystr \<rightharpoonup> pystr list"
  unquote :: "pystr \<Rightarrow> pystr"
  read_utf8 :: "byte list \<Rightarrow> exc + pystr"
  tmp_name :: "pystr \<Rightarrow> exc + pystr"
  infer :: "infer_args \<Rightarrow> exc + ('w \<times> nat)"
  sf_write :: "pystr \<Rightarrow> 'w \<Rightarrow> nat \<Rightarrow> exc + byte list"
  str_HTTPException :: "nat \<Rightarrow> pystr \<Rightarrow> pystr"

text \<open>
  The components the operating system resolves for a path: those of the working
  directory first when the path is relative.
\<close>

definition components :: "'w env \<Rightarrow> ppath \<Rightarrow> pystr list" where
  "components env p = (if anchor p = [] then cwd env @ tail p else tail p)"

text \<open>
  Examining the path \<open>p\<close> (\<open>os.stat(p)\<close>, and the path resolution of \<open>open\<close> and
  \<open>os.listdir\<close>): Python encodes \<open>str(p)\<close> and rejects a null character, the operating
  system refuses a string of \<open>PATH_MAX\<close> bytes or more and then resolves the components.
\<close>

definition lookup :: "'w env \<Rightarrow> ppath \<Rightarrow> stat_error + ((pystr \<times> node) list \<times> node)" where
  "lookup env p =
     (if \<not> encodable (str_path p) then Inl Unencodable
      else if 0 \<in> set (str_path p) then Inl NullByte
      else if PATH_MAX \<le> byte_len (str_path p) then Inl ENAMETOOLONG
      else walk (disk env) [] (components env p))"

text \<open>
  The exception for a failed examination of \<open>p\<close>; the file name is shown between quotes.
  The message of \<open>UnicodeEncodeError\<close> is abbreviated.
\<close>

definition os_exception :: "stat_error \<Rightarrow> ppath \<Rightarrow> exc" where
  "os_exception err p =
     (case err of
        Unencodable \<Rightarrow> PyException ''UnicodeEncodeError'' (py ''surrogates not allowed'')
      | NullByte \<Rightarrow> PyException ''ValueError'' (py ''embedded null byte'')
      | ENOENT \<Rightarrow> PyException ''FileNotFoundError''
          (py ''[Errno 2] No such file or directory: '' @ [39] @ str_path p @ [39])
      | ENOTDIR \<Rightarrow> PyException ''NotADirectoryError''
          (py ''[Errno 20] Not a directory: '' @ [39] @ str_path p @ [39])
      | ENAMETOOLONG \<Rightarrow> PyException ''OSError''
          (py ''[Errno 36] File name too long: '' @ [39] @ str_path p @ [39]))"

text \<open>
  \<open>Path.exists()\<close>: \<open>True\<close> when \<open>stat\<close> succeeds; \<open>False\<close> on \<open>ENOENT\<close> and \<open>ENOTDIR\<close>, the
  errors it ignores, and on a \<open>ValueError\<close> (a name that cannot be encoded or holds a null
  character); any other \<open>OSError\<close> is raised again, here \<open>ENAMETOOLONG\<close>.
\<close>

definition exists :: "'w env \<Rightarrow> ppath \<Rightarrow> exc + bool" where
  "exists env p =
     (case lookup env p of
        Inr found \<Rightarrow> Inr True
      | Inl Unencodable \<Rightarrow> Inr False
      | Inl NullByte \<Rightarrow> Inr False
      | Inl ENOENT \<Rightarrow> Inr False
      | Inl ENOTDIR \<Rightarrow> Inr False
      | Inl ENAMETOOLONG \<Rightarrow> Inl (os_exception ENAMETOOLONG p))"

text \<open>The canonical components of the place a path resolves to.\<close>

definition realpath :: "'w env \<Rightarrow> ppath \<Rightarrow> pystr list option" where
  "realpath env p =
     (case lookup env p of Inl err \<Rightarrow> None | Inr (anc, n) \<Rightarrow> Some (rev (map fst anc)))"

text \<open>\<open>open(p, "r", encoding="utf-8")\<close> followed by \<open>f.read()\<close>.\<close>

definition open_read :: "'w env \<Rightarrow> ppath \<Rightarrow> exc + pystr" where
  "open_read env p =
     (case lookup env p of
        Inl err \<Rightarrow> Inl (os_exception err p)
      | Inr (anc, Dir es) \<Rightarrow> Inl (PyException ''IsADirectoryError''
          (py ''[Errno 21] Is a directory: '' @ [39] @ str_path p @ [39]))
      | Inr (anc, File bs) \<Rightarrow> read_utf8 env bs)"

subsection \<open>The character store\<close>

text \<open>
  \<open>_scan_characters\<close>: the loop over \<open>character_dir.iterdir()\<close> is a fold over the entries
  of the directory; \<open>iterdir\<close> raises when the path is no directory. The dictionary
  \<open>characters\<close> is an association list in insertion order; \<open>dict_set d k v\<close> is \<open>d[k] = v\<close>.
\<close>

fun dict_set :: "('k \<times> 'v) list \<Rightarrow> 'k \<Rightarrow> 'v \<Rightarrow> ('k \<times> 'v) list" where
  "dict_set [] k v = [(k, v)]"
| "dict_set ((k', v') # d) k v = (if k' = k then (k, v) # d else (k', v') # dict_set d k v)"

definition scan_step :: "(pystr \<times> pystr list) list \<Rightarrow> pystr \<times> node \<Rightarrow> (pystr \<times> pystr list) list" where
  "scan_step characters entry =
     (case entry of (char_name, n) \<Rightarrow>
        if \<not> is_dir_node n then characters else dict_set characters char_name [py ''default''])"

definition scan_characters :: "'w env \<Rightarrow> exc + (pystr \<times> pystr list) list" where
  "scan_characters env =
     (case lookup env (character_dir env) of
        Inl err \<Rightarrow> Inl (os_exception err (character_dir env))
      | Inr (anc, File bs) \<Rightarrow> Inl (os_exception ENOTDIR (character_dir env))
      | Inr (anc, Dir es) \<Rightarrow> Inr (foldl scan_step [] es))"

text \<open>
  \<open>_get_character_paths\<close>. The three \<open>exists()\<close> of the condition are evaluated from left
  to right, each only when the one before it was true; an exception of any of them, or of
  reading the file, leaves the function.
\<close>

definition get_character_paths :: "'w env \<Rightarrow> pystr \<Rightarrow> exc + (pystr option \<times> pystr option)" where
  "get_character_paths env character_name =
     (let char_dir = joinpath (character_dir env) character_name;
          ref_wav = joinpath char_dir (py ''ref.wav'');
          ref_txt = joinpath char_dir (py ''ref.txt'')
      in case exists env char_dir of
           Inl e \<Rightarrow> Inl e
         | Inr dir_found \<Rightarrow>
             if \<not> dir_found then Inr (None, None)
             else (case exists env ref_wav of
                     Inl e \<Rightarrow> Inl e
                   | Inr wav_found \<Rightarrow>
                       if \<not> wav_found then Inr (None, None)
                       else (case exists env ref_txt of
                               Inl e \<Rightarrow> Inl e
                             | Inr txt_found \<Rightarrow>
                                 if \<not> txt_found then Inr (None, None)
                                 else (case open_read env ref_txt of
                                         Inl e \<Rightarrow> Inl e
                                       | Inr contents \<Rightarrow>
                                           Inr (Some (str_path ref_wav), Some (strip contents))))))"

text \<open>
  \<open>_load_params_config\<close>, given the parsed configuration file when there is one. The six
  default languages are Chinese literals, written as their code points.
\<close>

definition default_supported_languages :: "pystr list" where
  "default_supported_languages =
     [[0x4E2D, 0x6587], [0x82F1, 0x6587], [0x65E5, 0x6587], [0x4E2D, 0x82F1, 0x6DF7, 0x5408],
      [0x65E5, 0x82F1, 0x6DF7, 0x5408], [0x591A, 0x8BED, 0x79CD, 0x6DF7, 0x5408]]"

definition default_params_config :: "pystr \<rightharpoonup> pystr list" where
  "default_params_config =
     [py ''supported_languages'' \<mapsto> default_supported_languages,
      py ''supported_formats'' \<mapsto> [py ''wav'', py ''mp3'', py ''ogg'']]"

definition load_params_config :: "(pystr \<rightharpoonup> pystr list) option \<Rightarrow> (pystr \<rightharpoonup> pystr list)" where
  "load_params_config config_file =
     (case config_file of Some loaded \<Rightarrow> loaded | None \<Rightarrow> default_params_config)"

subsection \<open>The handler of \<open>/tts\<close>\<close>

text \<open>
  What a request can change: the temporary files on disk (name and contents), the calls
  the engine has received, and the lines written to the error log.
\<close>

record state =
  tmp_files :: "(pystr \<times> byte list) list"
  engine_calls :: "infer_args list"
  logged :: "pystr list"

text \<open>
  The response object and its background task; the only task the handler builds is
  \<open>lambda: os.unlink(temp_file.name)\<close>.
\<close>

datatype task = Unlink pystr

record response =
  path :: pystr
  media_type :: pystr
  filename :: pystr
  background :: task

text \<open>
  The names bound at module level: those of the \<open>import\<close> statements at the head of the
  file and the two classes. A name that is neither local, nor bound here, nor a builtin
  raises \<open>NameError\<close> when it is evaluated.
\<close>

definition module_names :: "string list" where
  "module_names =
     [''FastAPI'', ''HTTPException'', ''FileResponse'', ''JSONResponse'', ''CORSMiddleware'',
      ''uvicorn'', ''urllib'', ''json'', ''os'', ''tempfile'', ''Dict'', ''Optional'', ''List'',
      ''Tuple'', ''Union'', ''BaseModel'', ''logging'', ''Path'', ''sf'', ''F5TTS'',
      ''seed_everything'', ''TTSRequest'', ''TTSServer'']"

definition load_global :: "string \<Rightarrow> exc + unit" where
  "load_global n =
     (if n \<in> set module_names then Inr ()
      else Inl (PyException ''NameError'' (py ''name '' @ [39] @ py n @ [39] @ py '' is not defined'')))"

definition str_exc :: "'w env \<Rightarrow> exc \<Rightarrow> pystr" where
  "str_exc env e =
     (case e of HTTPException code d \<Rightarrow> str_HTTPException env code d | PyException cls msg \<Rightarrow> msg)"

text \<open>
  The first statement of the handler: a request without a body is built from the query
  parameters \<open>text\<close> (default \<open>""\<close>) and \<open>character\<close> (default \<open>"default"\<close>).
\<close>

definition request_params ::
  "'w env \<Rightarrow> TTSRequest option \<Rightarrow> pystr option \<Rightarrow> pystr option \<Rightarrow> exc + TTSRequest" where
  "request_params env request q_text q_character =
     (case request of
        None \<Rightarrow> TTSRequest_init (no_kwargs
          \<lparr>k_text := Some (unquote env (or_default q_text [])),
           k_character := Some (or_default q_character (py ''default''))\<rparr>)
      | Some r \<Rightarrow> Inr r)"

text \<open>
  The \<open>with tempfile.NamedTemporaryFile(suffix=..., delete=False)\<close> block. Entering it
  creates the empty file; leaving it, by \<open>return\<close> or by an exception, closes the file and
  does not remove it. The arguments of \<open>FileResponse(...)\<close> are evaluated from left to
  right, the name \<open>BackgroundTask\<close> last.
\<close>

definition synthesize ::
  "'w env \<Rightarrow> TTSRequest \<Rightarrow> pystr \<Rightarrow> pystr option \<Rightarrow> state \<Rightarrow> (exc + response) \<times> state" where
  "synthesize env params ref_audio ref_txt s =
     (case tmp_name env (py ''.'' @ format params) of
        Inl e \<Rightarrow> (Inl e, s)
      | Inr name \<Rightarrow>
          let s1 = s\<lparr>tmp_files := dict_set (tmp_files s) name []\<rparr>;
              args = \<lparr>ref_file = ref_audio, ref_text = ref_txt, gen_text = text params,
                      infer_speed = speed params, remove_silence = True\<rparr>;
              s2 = s1\<lparr>engine_calls := engine_calls s1 @ [args]\<rparr>
          in (case infer env args of
                Inl e \<Rightarrow> (Inl e, s2)
              | Inr (wav, sr) \<Rightarrow>
                  (case sf_write env name wav sr of
                     Inl e \<Rightarrow> (Inl e, s2)
                   | Inr bytes \<Rightarrow>
                       let s3 = s2\<lparr>tmp_files := dict_set (tmp_files s2) name bytes\<rparr>
                       in (case load_global ''BackgroundTask'' of
                             Inl e \<Rightarrow> (Inl e, s3)
                           | Inr u \<Rightarrow>
                               (Inr \<lparr>path = name,
                                     media_type = py ''audio/'' @ format params,
                                     filename = py ''tts_output.'' @ format params,
                                     background = Unlink name\<rparr>, s3)))))"

text \<open>The body of the \<open>try\<close> statement.\<close>

definition tts_body ::
  "'w env \<Rightarrow> TTSRequest option \<Rightarrow> pystr option \<Rightarrow> pystr option \<Rightarrow> state \<Rightarrow> (exc + response) \<times> state" where
  "tts_body env request q_text q_character s =
     (case request_params env request q_text q_character of
        Inl e \<Rightarrow> (Inl e, s)
      | Inr params \<Rightarrow>
          if text params = [] then (Inl (HTTPException 400 (py ''Text is required'')), s)
          else (case params_config env (py ''supported_languages'') of
                  None \<Rightarrow> (Inl (PyException ''KeyError'' ([39] @ py ''supported_languages'' @ [39])), s)
                | Some languages \<Rightarrow>
                    if text_language params \<notin> set languages
                    then (Inl (HTTPException 400 (py ''Unsupported language: '' @ text_language params)), s)
                    else (case get_character_paths env (character params) of
                            Inl e \<Rightarrow> (Inl e, s)
                          | Inr (ref_audio, ref_txt) \<Rightarrow>
                              (case ref_audio of
                                 None \<Rightarrow> (Inl (HTTPException 400 (py ''Character not found: '' @ character params)), s)
                               | Some audio \<Rightarrow>
                                   if audio = []
                                   then (Inl (HTTPException 400 (py ''Character not found: '' @ character params)), s)
                                   else synthesize env params audio ref_txt s))))"

text \<open>
  \<open>text_to_speech\<close>: the \<open>try\<close> body under \<open>except Exception as e\<close>, which logs \<open>str(e)\<close> and
  raises \<open>HTTPException(status_code=500, detail=str(e))\<close>.
\<close>

definition text_to_speech ::
  "'w env \<Rightarrow> TTSRequest option \<Rightarrow> pystr option \<Rightarrow> pystr option \<Rightarrow> state \<Rightarrow> (exc + response) \<times> state" where
  "text_to_speech env request q_text q_character s =
     (case tts_body env request q_text q_character s of
        (Inr r, s') \<Rightarrow> (Inr r, s')
      | (Inl e, s') \<Rightarrow>
          (Inl (HTTPException 500 (str_exc env e)),
           s'\<lparr>logged := logged s' @ [py ''Error in TTS processing: '' @ str_exc env e]\<rparr>))"

subsection \<open>A concrete server\<close>

text \<open>The decimal digits of a number, as \<open>str\<close> of an \<open>int\<close> gives them.\<close>

function str_nat :: "nat \<Rightarrow> pystr" where
  "str_nat n = (if n < 10 then [48 + n] else str_nat (n div 10) @ [48 + n mod 10])"
  by pat_completeness auto
termination
  by (relation "measure id") auto

declare str_nat.simps [simp del]

text \<open>
  The scenario of the specification: under \<open>/srv/characters\<close> the character \<open>alice\<close> has
  \<open>ref.wav\<close> and \<open>ref.txt\<close> (holding \<open>hello there\<close> and a newline), the directory \<open>bob\<close> is
  empty and \<open>notes.txt\<close> is a regular file; beside the character root, \<open>/srv/secret\<close> holds
  reference files of its own. The library functions are simple instances: \<open>unquote\<close> is
  the identity (as it is on a string without \<open>%\<close>), \<open>read_utf8\<close> decodes ASCII bytes, the
  engine returns three samples at 24 kHz, the encoder four bytes, and an \<open>HTTPException\<close>
  is rendered as \<open>"<status>: <detail>"\<close>.
\<close>

definition bytes_of :: "string \<Rightarrow> byte list" where
  "bytes_of s = map of_char s"

definition demo_disk :: node where
  "demo_disk =
     Dir [(py ''srv'', Dir
       [(py ''characters'', Dir
          [(py ''alice'', Dir [(py ''ref.wav'', File (bytes_of ''RIFF'')),
                               (py ''ref.txt'', File (bytes_of ''hello there'' @ [10]))]),
           (py ''bob'', Dir []),
           (py ''notes.txt'', File (bytes_of ''todo''))]),
        (py ''secret'', Dir [(py ''ref.wav'', File (bytes_of ''RIFF'')),
                             (py ''ref.txt'', File (bytes_of ''top secret''))])])]"

definition demo_env :: "int list env" where
  "demo_env =
     \<lparr>disk = demo_disk,
      cwd = [py ''srv''],
      character_dir = parse_path (py ''/srv/characters''),
      params_config = load_params_config None,
      unquote = (\<lambda>s. s),
      read_utf8 = (\<lambda>bs. Inr (map unat bs)),
      tmp_name = (\<lambda>suffix. Inr (py ''/tmp/tmpk3v9x1'' @ suffix)),
      infer = (\<lambda>a. Inr ([0, 1, -1], 24000)),
      sf_write = (\<lambda>name wav sr. Inr (bytes_of ''RIFF'')),
      str_HTTPException = (\<lambda>code d. str_nat code @ py '': '' @ d)\<rparr>"

definition empty_state :: state where
  "empty_state = \<lparr>tmp_files = [], engine_calls = [], logged = []\<rparr>"

definition english :: pystr where
  "english = [0x82F1, 0x6587]"

definition demo_request :: "string \<Rightarrow> string \<Rightarrow> pystr \<Rightarrow> TTSRequest" where
  "demo_request t c lang =
     \<lparr>text = py t, character = py c, emotion = py ''default'', text_language = lang,
      format = py ''wav'', top_k = 50.0, top_p = 0.95, batch_size = 1, speed = 1.0,
      temperature = 0.7, save_temp = False, stream = False\<rparr>"



definition expected_call :: infer_args where
  "expected_call =
     \<lparr>ref_file = py ''/srv/characters/alice/ref.wav'', ref_text = Some (py ''hello there''),
      gen_text = py ''test phrase'', infer_speed = 1.0, remove_silence = True\<rparr>"

definition strict_env :: "int list env" where
  "strict_env = demo_env
     \<lparr>infer := (\<lambda>a. if a = expected_call then Inr ([0, 1, -1], 24000)
                     else Inl (PyException ''RuntimeError'' (py ''unexpected call''))),
      sf_write := (\<lambda>name wav sr.
                     if name = py ''/tmp/tmpk3v9x1.wav'' \<and> wav = [0, 1, -1] \<and> sr = 24000
                     then Inr (bytes_of ''RIFF'')
                     else Inl (PyException ''RuntimeError'' (py ''unexpected write'')))\<rparr>"

subsection \<open>The character store as the specification words it\<close>

text \<open>
  The entries of the directory \<open>characterRoot/name\<close>, when there is such a directory, and
  the specification's condition for a character to exist: that directory contains both
  \<open>ref.wav\<close> and \<open>ref.txt\<close>.
\<close>

definition character_entries :: "'w env \<Rightarrow> pystr \<Rightarrow> (pystr \<times> node) list option" where
  "character_entries env name =
     (case lookup env (joinpath (character_dir env) name) of
        Inr (anc, Dir es) \<Rightarrow> Some es
      | Inr (anc, File bs) \<Rightarrow> None
      | Inl err \<Rightarrow> None)"

definition has_reference_files :: "'w env \<Rightarrow> pystr \<Rightarrow> bool" where
  "has_reference_files env name \<longleftrightarrow>
     (case character_entries env name of
        None \<Rightarrow> False
      | Some es \<Rightarrow> map_of es (py ''ref.wav'') \<noteq> None \<and> map_of es (py ''ref.txt'') \<noteq> None)"



section \<open>Properties\<close>

subsection \<open>The request model\<close>

text \<open>
  C9. A request constructed without explicit sampling parameters and without a character
  carries the defaults \<open>top_k = 50.0\<close>, \<open>top_p = 0.95\<close>, \<open>batch_size = 1\<close>, \<open>speed = 1.0\<close>,
  \<open>temperature = 0.7\<close> and the character \<open>"default"\<close>; the construction succeeds as soon
  as the text is given.
\<close>

theorem TTSRequest_defaults:
  assumes "k_text kw = Some t"
    and "k_character kw = None" and "k_top_k kw = None" and "k_top_p kw = None"
    and "k_batch_size kw = None" and "k_speed kw = None" and "k_temperature kw = None"
  shows "\<exists>r. TTSRequest_init kw = Inr r \<and> text r = t \<and> character r = py ''default'' \<and>
           top_k r = 50.0 \<and> top_p r = 0.95 \<and> batch_size r = 1 \<and> speed r = 1.0 \<and>
           temperature r = 0.7"
  using assms by (simp add: TTSRequest_init_def or_default_def)

theorem TTSRequest_defaults_witness:
  "\<exists>r. TTSRequest_init (no_kwargs\<lparr>k_text := Some (py ''hi'')\<rparr>) = Inr r \<and>
       text r = py ''hi'' \<and> character r = py ''default'' \<and>
       top_k r = 50.0 \<and> top_p r = 0.95 \<and> batch_size r = 1 \<and> speed r = 1.0 \<and>
       temperature r = 0.7"
  using TTSRequest_defaults [of "no_kwargs\<lparr>k_text := Some (py ''hi'')\<rparr>" "py ''hi''"]
  by (simp add: no_kwargs_def)

subsection \<open>The character store\<close>





























lemmas fs_eval = lookup_def components_def encodable_def byte_len_def utf8_len_def
  NAME_MAX_def PATH_MAX_def exists_def str_path_def joinpath_def parse_path_def splitroot_def


lemma demo_bob_entries: "character_entries demo_env (py ''bob'') = Some []"
  by (simp add: character_entries_def demo_env_def demo_disk_def fs_eval py_def)














lemma map_of_dict_set: "map_of (dict_set d k v) = (map_of d)(k \<mapsto> v)"
  by (induction d k v rule: dict_set.induct) auto

lemma keys_dict_set: "fst ` set (dict_set d k v) = insert k (fst ` set d)"
  by (induction d k v rule: dict_set.induct) auto

lemma distinct_dict_set: "distinct (map fst d) \<Longrightarrow> distinct (map fst (dict_set d k v))"
proof (induction d k v rule: dict_set.induct)
  case (1 k v)
  then show ?case by simp
next
  case (2 k' v' d k v)
  then show ?case
    using keys_dict_set [of d k v] by (auto simp: image_iff)
qed

lemma distinct_scan: "distinct (map fst d) \<Longrightarrow> distinct (map fst (foldl scan_step d es))"
  by (induction es arbitrary: d) (auto simp: scan_step_def distinct_dict_set)

lemma map_of_scan:
  "map_of (foldl scan_step d es) name =
     (if \<exists>n. (name, n) \<in> set es \<and> is_dir_node n then Some [py ''default''] else map_of d name)"
proof (induction es arbitrary: d)
  case Nil
  then show ?case by simp
next
  case (Cons e es)
  obtain k n where e: "e = (k, n)" by (cases e)
  show ?case
    using Cons.IH [of "scan_step d e"] by (auto simp: e scan_step_def map_of_dict_set)
qed

text \<open>
  C5, as the code has it. When the character root is a directory, \<open>_scan_characters\<close>
  returns a dictionary whose keys are exactly the names of the entries that are
  directories, each mapped to \<open>["default"]\<close>; entries that are not directories are left
  out. Whether a subdirectory holds the reference files plays no part.
\<close>

theorem scan_characters_subdirectories:
  assumes "lookup env (character_dir env) = Inr (anc, Dir es)"
  shows "\<exists>d. scan_characters env = Inr d \<and> distinct (map fst d) \<and>
           (\<forall>name. map_of d name =
              (if \<exists>n. (name, n) \<in> set es \<and> is_dir_node n then Some [py ''default''] else None))"
  using assms by (simp add: scan_characters_def distinct_scan map_of_scan)

lemma demo_lookup_root:
  "lookup demo_env (character_dir demo_env) =
     Inr ([(py ''characters'', Dir
              [(py ''characters'', Dir
                 [(py ''alice'', Dir [(py ''ref.wav'', File (bytes_of ''RIFF'')),
                                      (py ''ref.txt'', File (bytes_of ''hello there'' @ [10]))]),
                  (py ''bob'', Dir []),
                  (py ''notes.txt'', File (bytes_of ''todo''))]),
               (py ''secret'', Dir [(py ''ref.wav'', File (bytes_of ''RIFF'')),
                                    (py ''ref.txt'', File (bytes_of ''top secret''))])]),
            (py ''srv'', demo_disk)],
           Dir [(py ''alice'', Dir [(py ''ref.wav'', File (bytes_of ''RIFF'')),
                                    (py ''ref.txt'', File (bytes_of ''hello there'' @ [10]))]),
                (py ''bob'', Dir []),
                (py ''notes.txt'', File (bytes_of ''todo''))])"
  by (simp add: demo_env_def demo_disk_def fs_eval py_def)

theorem scan_characters_subdirectories_witness:
  "\<exists>d. scan_characters demo_env = Inr d \<and> map_of d (py ''bob'') = Some [py ''default''] \<and>
       map_of d (py ''notes.txt'') = None"
proof -
  from scan_characters_subdirectories [OF demo_lookup_root]
  obtain d where d: "scan_characters demo_env = Inr d"
    and m: "\<And>name. map_of d name =
       (if \<exists>n. (name, n) \<in> set [(py ''alice'', Dir [(py ''ref.wav'', File (bytes_of ''RIFF'')),
                                    (py ''ref.txt'', File (bytes_of ''hello there'' @ [10]))]),
                (py ''bob'', Dir []),
                (py ''notes.txt'', File (bytes_of ''todo''))] \<and> is_dir_node n
        then Some [py ''default''] else None)"
    by blast
  have "map_of d (py ''bob'') = Some [py ''default'']"
    unfolding m by (simp add: py_def)
  moreover have "map_of d (py ''notes.txt'') = None"
    unfolding m by (auto simp: py_def)
  ultimately show ?thesis using d by blast
qed

text \<open>
  The claim C5 as stated fails: the directory \<open>bob\<close> is empty, so it holds neither
  reference file, and it is listed all the same.
\<close>

theorem scan_characters_counterexample:
  "scan_characters demo_env = Inr [(py ''alice'', [py ''default'']), (py ''bob'', [py ''default''])] \<and>
   \<not> has_reference_files demo_env (py ''bob'')"
  by (simp add: scan_characters_def demo_lookup_root scan_step_def has_reference_files_def
      demo_bob_entries) (simp add: py_def)

lemma get_character_paths_probes:
  assumes "get_character_paths env name = Inr (Some a, Some t)"
  shows "a = str_path (joinpath (joinpath (character_dir env) name) (py ''ref.wav'')) \<and>
     exists env (joinpath (joinpath (character_dir env) name) (py ''ref.wav'')) = Inr True \<and>
     (\<exists>anc bs contents.
        lookup env (joinpath (joinpath (character_dir env) name) (py ''ref.txt'')) = Inr (anc, File bs) \<and>
        read_utf8 env bs = Inr contents \<and> t = strip contents)"
  using assms
  by (auto simp: get_character_paths_def Let_def open_read_def
      split: if_splits sum.splits prod.splits node.splits)

lemma split_on_rel:
  assumes "seg \<in> set (split_on 47 name)" and "seg \<noteq> []"
  shows "seg \<in> set (split_on 47 (snd (splitroot name)))"
proof (cases name)
  case Nil
  with assms show ?thesis by simp
next
  case (Cons x xs)
  show ?thesis
  proof (cases "x = 47")
    case False
    with Cons assms show ?thesis by (simp add: splitroot_def py_def)
  next
    case True
    note x = this
    show ?thesis
    proof (cases xs)
      case Nil
      with Cons x assms show ?thesis by (simp add: splitroot_def py_def)
    next
      case (Cons y ys)
      with \<open>name = x # xs\<close> x assms show ?thesis
        by (cases ys) (auto simp: splitroot_def py_def split: if_splits)
    qed
  qed
qed

lemma joinpath_keeps_segments:
  assumes "seg \<in> set (split_on 47 name)" and "seg \<noteq> []" and "seg \<noteq> py ''.''"
  shows "seg \<in> set (tail (joinpath p name))"
  using split_on_rel [OF assms(1,2)] assms(2,3)
  by (auto simp: joinpath_def parse_path_def Let_def split: prod.splits)

lemma demo_escape:
  "realpath demo_env (character_dir demo_env) = Some [py ''srv'', py ''characters''] \<and>
   realpath demo_env (joinpath (joinpath (character_dir demo_env) (py ''../secret'')) (py ''ref.txt''))
     = Some [py ''srv'', py ''secret'', py ''ref.txt''] \<and>
   get_character_paths demo_env (py ''../secret'')
     = Inr (Some (py ''/srv/characters/../secret/ref.wav''), Some (py ''top secret''))"
  by (simp add: realpath_def demo_env_def demo_disk_def get_character_paths_def
      open_read_def strip_def isspace_def bytes_of_def fs_eval py_def)

text \<open>
  C10. The character name reaches the file system unsanitized. Whenever
  \<open>_get_character_paths\<close> resolves a name, the path returned is that of
  \<open>characterRoot / name / "ref.wav"\<close>, which exists, and the text is read from
  \<open>characterRoot / name / "ref.txt"\<close>; every segment of the name between separators, other
  than the empty one and \<open>"."\<close>, is a component of the path probed, \<open>".."\<close> included. So a
  crafted name leaves the character root: with the root \<open>/srv/characters\<close>, the name
  \<open>"../secret"\<close> resolves to \<open>/srv/secret/ref.txt\<close>, and the server reads that file.
\<close>

theorem character_name_unsanitized:
  "(get_character_paths env name = Inr (Some a, Some t) \<longrightarrow>
      a = str_path (joinpath (joinpath (character_dir env) name) (py ''ref.wav'')) \<and>
      exists env (joinpath (joinpath (character_dir env) name) (py ''ref.wav'')) = Inr True \<and>
      (\<exists>anc bs contents.
         lookup env (joinpath (joinpath (character_dir env) name) (py ''ref.txt'')) = Inr (anc, File bs) \<and>
         read_utf8 env bs = Inr contents \<and> t = strip contents)) \<and>
   (seg \<in> set (split_on 47 name) \<and> seg \<noteq> [] \<and> seg \<noteq> py ''.'' \<longrightarrow>
      seg \<in> set (tail (joinpath (character_dir env) name))) \<and>
   realpath demo_env (character_dir demo_env) = Some [py ''srv'', py ''characters''] \<and>
   realpath demo_env (joinpath (joinpath (character_dir demo_env) (py ''../secret'')) (py ''ref.txt''))
     = Some [py ''srv'', py ''secret'', py ''ref.txt''] \<and>
   get_character_paths demo_env (py ''../secret'')
     = Inr (Some (py ''/srv/characters/../secret/ref.wav''), Some (py ''top secret''))"
  using get_character_paths_probes [of env name a t] joinpath_keeps_segments [of seg name]
    demo_escape by blast

lemma demo_absolute_name:
  "get_character_paths demo_env (py ''/srv/secret'')
     = Inr (Some (py ''/srv/secret/ref.wav''), Some (py ''top secret''))"
  by (simp add: demo_env_def demo_disk_def get_character_paths_def
      open_read_def strip_def isspace_def bytes_of_def fs_eval py_def)

theorem character_name_unsanitized_witness:
  "py ''..'' \<in> set (tail (joinpath (character_dir demo_env) (py ''../secret''))) \<and>
   exists demo_env (joinpath (joinpath (character_dir demo_env) (py ''/srv/secret'')) (py ''ref.wav''))
     = Inr True \<and>
   get_character_paths demo_env (py ''/srv/secret'')
     = Inr (Some (py ''/srv/secret/ref.wav''), Some (py ''top secret''))"
proof -
  have seg: "py ''..'' \<in> set (split_on 47 (py ''../secret'')) \<and> py ''..'' \<noteq> [] \<and> py ''..'' \<noteq> py ''.''"
    by (simp add: py_def)
  from character_name_unsanitized [of demo_env "py ''../secret''" _ _ "py ''..''"] seg
  have a: "py ''..'' \<in> set (tail (joinpath (character_dir demo_env) (py ''../secret'')))"
    by blast
  from character_name_unsanitized [of demo_env "py ''/srv/secret''"
      "py ''/srv/secret/ref.wav''" "py ''top secret''"] demo_absolute_name
  have b: "exists demo_env (joinpath (joinpath (character_dir demo_env) (py ''/srv/secret'')) (py ''ref.wav''))
      = Inr True"
    by blast
  from a b demo_absolute_name show ?thesis by blast
qed

subsection \<open>The concrete server\<close>

lemma demo_languages:
  "params_config demo_env (py ''supported_languages'') =
     Some default_supported_languages"
  by (simp add: demo_env_def load_params_config_def default_params_config_def py_def)

lemma demo_request_fields:
  "text (demo_request t c l) = py t" "character (demo_request t c l) = py c"
  "text_language (demo_request t c l) = l" "format (demo_request t c l) = py ''wav''"
  "speed (demo_request t c l) = 1.0"
  by (simp_all add: demo_request_def)

lemma english_supported:
  "english \<in> set default_supported_languages"
  by (simp add: english_def default_supported_languages_def)

lemma default_language_supported:
  "default_text_language \<in> set default_supported_languages"
  by (simp add: default_text_language_def default_supported_languages_def)

lemma klingon_unsupported:
  "py ''Klingon'' \<notin> set default_supported_languages"
  by (simp add: py_def default_supported_languages_def)

lemma py_nonempty: "py ''x'' \<noteq> []" "py ''test phrase'' \<noteq> []"
  "py ''/srv/characters/alice/ref.wav'' \<noteq> []"
  by (simp_all add: py_def)

lemma demo_infer: "infer demo_env a = Inr ([0, 1, -1], 24000)"
  by (simp add: demo_env_def)

lemma demo_sf_write: "sf_write demo_env name wav sr = Inr (bytes_of ''RIFF'')"
  by (simp add: demo_env_def)

lemma str_nat_400: "str_nat 400 = py ''400''"
  by (simp add: str_nat.simps py_def)

lemma demo_str_400: "str_HTTPException demo_env 400 d = py ''400: '' @ d"
  by (simp add: demo_env_def str_nat_400) (simp add: py_def)

lemma demo_tmp_name:
  "tmp_name demo_env (py ''.'' @ format (demo_request t c l)) = Inr (py ''/tmp/tmpk3v9x1.wav'')"
  by (simp add: demo_env_def demo_request_def py_def)

lemma demo_alice_paths:
  "get_character_paths demo_env (py ''alice'') =
     Inr (Some (py ''/srv/characters/alice/ref.wav''), Some (py ''hello there''))"
  by (simp add: demo_env_def demo_disk_def get_character_paths_def
      open_read_def strip_def isspace_def bytes_of_def fs_eval py_def)

lemma demo_bob_paths: "get_character_paths demo_env (py ''bob'') = Inr (None, None)"
  by (simp add: demo_env_def demo_disk_def get_character_paths_def fs_eval py_def)

lemma demo_alice_body:
  "tts_body demo_env (Some (demo_request ''test phrase'' ''alice'' english)) None None empty_state =
     synthesize demo_env (demo_request ''test phrase'' ''alice'' english)
       (py ''/srv/characters/alice/ref.wav'') (Some (py ''hello there'')) empty_state"
  by (simp add: tts_body_def request_params_def demo_request_fields py_nonempty
      demo_languages english_supported demo_alice_paths)

subsection \<open>The handler\<close>

lemma load_BackgroundTask:
  "load_global ''BackgroundTask'' =
     Inl (PyException ''NameError'' (py ''name 'BackgroundTask' is not defined''))"
  by (simp add: load_global_def module_names_def py_def)

lemma synthesize_raises: "\<exists>e. fst (synthesize env params audio ref_txt s) = Inl e"
  by (simp add: synthesize_def load_BackgroundTask Let_def split: sum.splits prod.splits)

lemma tts_body_raises: "\<exists>e. fst (tts_body env request q_text q_character s) = Inl e"
  by (simp add: tts_body_def synthesize_raises split: sum.splits prod.splits option.splits)

lemma text_to_speech_raises_500:
  "\<exists>d. fst (text_to_speech env request q_text q_character s) = Inl (HTTPException 500 d)"
proof -
  obtain e where "fst (tts_body env request q_text q_character s) = Inl e"
    using tts_body_raises by blast
  then show ?thesis
    by (cases "tts_body env request q_text q_character s") (simp add: text_to_speech_def)
qed

lemma tts_body_invalid:
  assumes "request_params env request q_text q_character = Inr params"
    and "text params = [] \<or>
         (\<exists>languages. params_config env (py ''supported_languages'') = Some languages \<and>
            text_language params \<notin> set languages)"
  shows "snd (tts_body env request q_text q_character s) = s"
  using assms by (auto simp: tts_body_def)

text \<open>
  C4. A request with an empty text, or with a \<open>text_language\<close> outside the configured
  supported languages, ends in a failure (the handler raises), the engine has received
  no call and no temporary file has been created.
\<close>

theorem invalid_request_engine_not_invoked:
  assumes "request_params env request q_text q_character = Inr params"
    and "text params = [] \<or>
         (\<exists>languages. params_config env (py ''supported_languages'') = Some languages \<and>
            text_language params \<notin> set languages)"
  shows "(\<exists>d. fst (text_to_speech env request q_text q_character s) = Inl (HTTPException 500 d)) \<and>
         engine_calls (snd (text_to_speech env request q_text q_character s)) = engine_calls s \<and>
         tmp_files (snd (text_to_speech env request q_text q_character s)) = tmp_files s"
proof -
  have "snd (tts_body env request q_text q_character s) = s"
    using assms by (rule tts_body_invalid)
  then have "engine_calls (snd (text_to_speech env request q_text q_character s)) = engine_calls s \<and>
         tmp_files (snd (text_to_speech env request q_text q_character s)) = tmp_files s"
    by (cases "tts_body env request q_text q_character s")
       (auto simp: text_to_speech_def split: sum.splits)
  with text_to_speech_raises_500 show ?thesis by blast
qed

theorem invalid_request_engine_not_invoked_witness:
  "engine_calls (snd (text_to_speech demo_env (Some (demo_request [] ''alice'' english))
      None None empty_state)) = [] \<and>
   engine_calls (snd (text_to_speech demo_env (Some (demo_request ''x'' ''alice'' (py ''Klingon'')))
      None None empty_state)) = []"
proof -
  have a: "request_params demo_env (Some (demo_request [] ''alice'' english)) None None
      = Inr (demo_request [] ''alice'' english)"
    by (simp add: request_params_def)
  have b: "text (demo_request [] ''alice'' english) = []"
    by (simp add: demo_request_def py_def)
  have c: "request_params demo_env (Some (demo_request ''x'' ''alice'' (py ''Klingon''))) None None
      = Inr (demo_request ''x'' ''alice'' (py ''Klingon''))"
    by (simp add: request_params_def)
  have d: "\<exists>languages. params_config demo_env (py ''supported_languages'') = Some languages \<and>
      text_language (demo_request ''x'' ''alice'' (py ''Klingon'')) \<notin> set languages"
    by (simp add: demo_languages demo_request_fields klingon_unsupported)
  from invalid_request_engine_not_invoked [OF a, of empty_state] b
  have "engine_calls (snd (text_to_speech demo_env (Some (demo_request [] ''alice'' english))
      None None empty_state)) = engine_calls empty_state" by blast
  moreover from invalid_request_engine_not_invoked [OF c, of empty_state] d
  have "engine_calls (snd (text_to_speech demo_env (Some (demo_request ''x'' ''alice'' (py ''Klingon'')))
      None None empty_state)) = engine_calls empty_state" by blast
  ultimately show ?thesis by (simp add: empty_state_def)
qed

lemma get_character_paths_shape:
  assumes "get_character_paths env name = Inr (Some a, rt)"
  shows "\<exists>t. rt = Some t"
  using assms
  by (auto simp: get_character_paths_def Let_def split: if_splits sum.splits)

lemma text_to_speech_state:
  "engine_calls (snd (text_to_speech env request q_text q_character s)) =
     engine_calls (snd (tts_body env request q_text q_character s)) \<and>
   tmp_files (snd (text_to_speech env request q_text q_character s)) =
     tmp_files (snd (tts_body env request q_text q_character s))"
  by (cases "tts_body env request q_text q_character s")
     (auto simp: text_to_speech_def split: sum.splits)

lemma synthesize_engine_calls:
  assumes "tmp_name env (py ''.'' @ format params) = Inr name"
  shows "engine_calls (snd (synthesize env params audio ref_txt s)) =
     engine_calls s @
       [\<lparr>ref_file = audio, ref_text = ref_txt, gen_text = text params,
         infer_speed = speed params, remove_silence = True\<rparr>]"
  using assms
  by (simp add: synthesize_def Let_def split: sum.splits prod.splits)

lemma synthesize_outcome:
  assumes "tmp_name env (py ''.'' @ format params) = Inr name"
    and "call = \<lparr>ref_file = audio, ref_text = ref_txt, gen_text = text params,
                  infer_speed = speed params, remove_silence = True\<rparr>"
  shows "(\<forall>e. infer env call = Inl e \<longrightarrow>
            synthesize env params audio ref_txt s =
              (Inl e, s\<lparr>tmp_files := dict_set (tmp_files s) name [],
                        engine_calls := engine_calls s @ [call]\<rparr>))"
    and "(\<forall>wav sr e. infer env call = Inr (wav, sr) \<and> sf_write env name wav sr = Inl e \<longrightarrow>
            synthesize env params audio ref_txt s =
              (Inl e, s\<lparr>tmp_files := dict_set (tmp_files s) name [],
                        engine_calls := engine_calls s @ [call]\<rparr>))"
    and "(\<forall>wav sr bytes. infer env call = Inr (wav, sr) \<and> sf_write env name wav sr = Inr bytes \<longrightarrow>
            tmp_files (snd (synthesize env params audio ref_txt s)) =
              dict_set (dict_set (tmp_files s) name []) name bytes)"
  using assms
  by (auto simp: synthesize_def Let_def split: sum.splits)

text \<open>
  C8. A request that reaches the synthesis stage (validation passed, the character
  resolved, the temporary file was created) makes exactly one call to the engine: with
  the character's reference audio path, the character's reference text, the request's
  text and speed, and \<open>remove_silence = True\<close>. The call is the one recorded, and it is
  what the engine answers at these very arguments that decides the outcome: its exception
  becomes the detail of the response, its waveform and sample rate go to the encoder,
  whose bytes end up in the temporary file.
\<close>

theorem engine_invocation_arguments:
  assumes "request_params env request q_text q_character = Inr params"
    and "text params \<noteq> []"
    and "params_config env (py ''supported_languages'') = Some languages"
    and "text_language params \<in> set languages"
    and "get_character_paths env (character params) = Inr (Some audio, ref_txt)"
    and "audio \<noteq> []"
    and "tmp_name env (py ''.'' @ format params) = Inr name"
    and "call = \<lparr>ref_file = audio, ref_text = ref_txt, gen_text = text params,
                  infer_speed = speed params, remove_silence = True\<rparr>"
  shows "engine_calls (snd (text_to_speech env request q_text q_character s)) =
           engine_calls s @ [call] \<and>
         (\<exists>t. ref_txt = Some t) \<and>
         audio = str_path (joinpath (joinpath (character_dir env) (character params)) (py ''ref.wav'')) \<and>
         (\<forall>e. infer env call = Inl e \<longrightarrow>
            fst (text_to_speech env request q_text q_character s) =
              Inl (HTTPException 500 (str_exc env e)) \<and>
            tmp_files (snd (text_to_speech env request q_text q_character s)) =
              dict_set (tmp_files s) name []) \<and>
         (\<forall>wav sr e. infer env call = Inr (wav, sr) \<and> sf_write env name wav sr = Inl e \<longrightarrow>
            fst (text_to_speech env request q_text q_character s) =
              Inl (HTTPException 500 (str_exc env e))) \<and>
         (\<forall>wav sr bytes. infer env call = Inr (wav, sr) \<and> sf_write env name wav sr = Inr bytes \<longrightarrow>
            tmp_files (snd (text_to_speech env request q_text q_character s)) =
              dict_set (dict_set (tmp_files s) name []) name bytes)"
proof -
  have body: "tts_body env request q_text q_character s = synthesize env params audio ref_txt s"
    using assms(1-6) by (simp add: tts_body_def)
  obtain t where t: "ref_txt = Some t"
    using get_character_paths_shape [OF assms(5)] by blast
  have a: "audio = str_path (joinpath (joinpath (character_dir env) (character params)) (py ''ref.wav''))"
    using get_character_paths_probes [of env "character params" audio t] assms(5) t by blast
  have calls: "engine_calls (snd (text_to_speech env request q_text q_character s)) =
      engine_calls s @ [call]"
    by (simp add: text_to_speech_state body synthesize_engine_calls [OF assms(7)] assms(8))
  note out = synthesize_outcome [OF assms(7,8), of s]
  have e1: "\<forall>e. infer env call = Inl e \<longrightarrow>
            fst (text_to_speech env request q_text q_character s) =
              Inl (HTTPException 500 (str_exc env e)) \<and>
            tmp_files (snd (text_to_speech env request q_text q_character s)) =
              dict_set (tmp_files s) name []"
    using out(1) by (auto simp: text_to_speech_def body)
  have e2: "\<forall>wav sr e. infer env call = Inr (wav, sr) \<and> sf_write env name wav sr = Inl e \<longrightarrow>
            fst (text_to_speech env request q_text q_character s) =
              Inl (HTTPException 500 (str_exc env e))"
    using out(2) by (auto simp: text_to_speech_def body)
  have e3: "\<forall>wav sr bytes. infer env call = Inr (wav, sr) \<and> sf_write env name wav sr = Inr bytes \<longrightarrow>
            tmp_files (snd (text_to_speech env request q_text q_character s)) =
              dict_set (dict_set (tmp_files s) name []) name bytes"
    using out(3) by (simp add: text_to_speech_state body)
  from calls t a e1 e2 e3 show ?thesis by blast
qed

lemma strict_env_lookup: "lookup strict_env p = lookup demo_env p"
  by (simp add: strict_env_def lookup_def components_def)

lemma strict_env_same:
  "params_config strict_env = params_config demo_env"
  "tmp_name strict_env = tmp_name demo_env"
  "get_character_paths strict_env name = get_character_paths demo_env name"
proof -
  show "params_config strict_env = params_config demo_env"
    by (simp add: strict_env_def)
  show "tmp_name strict_env = tmp_name demo_env"
    by (simp add: strict_env_def)
  have c: "character_dir strict_env = character_dir demo_env"
    and r: "read_utf8 strict_env = read_utf8 demo_env"
    by (simp_all add: strict_env_def)
  have e: "exists strict_env p = exists demo_env p" for p
    by (simp add: exists_def strict_env_lookup)
  have o: "open_read strict_env p = open_read demo_env p" for p
    unfolding open_read_def strict_env_lookup r ..
  show "get_character_paths strict_env name = get_character_paths demo_env name"
    unfolding get_character_paths_def e o c ..
qed

lemma strict_infer: "infer strict_env expected_call = Inr ([0, 1, -1], 24000)"
  by (simp add: strict_env_def)

lemma strict_sf_write:
  "sf_write strict_env (py ''/tmp/tmpk3v9x1.wav'') [0, 1, -1] 24000 = Inr (bytes_of ''RIFF'')"
  by (simp add: strict_env_def)

theorem engine_invocation_arguments_witness:
  "engine_calls (snd (text_to_speech strict_env
      (Some (demo_request ''test phrase'' ''alice'' english)) None None empty_state)) =
     [\<lparr>ref_file = py ''/srv/characters/alice/ref.wav'', ref_text = Some (py ''hello there''),
       gen_text = py ''test phrase'', infer_speed = 1.0, remove_silence = True\<rparr>] \<and>
   tmp_files (snd (text_to_speech strict_env
      (Some (demo_request ''test phrase'' ''alice'' english)) None None empty_state)) =
     [(py ''/tmp/tmpk3v9x1.wav'', bytes_of ''RIFF'')]"
proof -
  have r: "request_params strict_env (Some (demo_request ''test phrase'' ''alice'' english)) None None
      = Inr (demo_request ''test phrase'' ''alice'' english)"
    by (simp add: request_params_def)
  have t: "text (demo_request ''test phrase'' ''alice'' english) \<noteq> []"
    by (simp add: demo_request_fields py_nonempty)
  have c: "params_config strict_env (py ''supported_languages'') = Some default_supported_languages"
    by (simp add: strict_env_same demo_languages)
  have l: "text_language (demo_request ''test phrase'' ''alice'' english) \<in> set default_supported_languages"
    by (simp only: demo_request_fields english_supported)
  have p: "get_character_paths strict_env (character (demo_request ''test phrase'' ''alice'' english))
      = Inr (Some (py ''/srv/characters/alice/ref.wav''), Some (py ''hello there''))"
    by (simp add: strict_env_same demo_request_fields demo_alice_paths)
  have n: "tmp_name strict_env (py ''.'' @ format (demo_request ''test phrase'' ''alice'' english))
      = Inr (py ''/tmp/tmpk3v9x1.wav'')"
    by (simp add: strict_env_same demo_tmp_name)
  have k: "expected_call =
      \<lparr>ref_file = py ''/srv/characters/alice/ref.wav'', ref_text = Some (py ''hello there''),
       gen_text = text (demo_request ''test phrase'' ''alice'' english),
       infer_speed = speed (demo_request ''test phrase'' ''alice'' english), remove_silence = True\<rparr>"
    by (simp add: expected_call_def demo_request_fields)
  from engine_invocation_arguments [OF r t c l p py_nonempty(3) n k, of empty_state]
    strict_infer strict_sf_write
  have "engine_calls (snd (text_to_speech strict_env
      (Some (demo_request ''test phrase'' ''alice'' english)) None None empty_state)) =
        engine_calls empty_state @ [expected_call] \<and>
     tmp_files (snd (text_to_speech strict_env
      (Some (demo_request ''test phrase'' ''alice'' english)) None None empty_state)) =
        dict_set (dict_set (tmp_files empty_state) (py ''/tmp/tmpk3v9x1.wav'') [])
          (py ''/tmp/tmpk3v9x1.wav'') (bytes_of ''RIFF'')"
    by blast
  then show ?thesis
    by (simp add: empty_state_def expected_call_def)
qed

lemma engine_called_at_most_once:
  "\<exists>cs. engine_calls (snd (text_to_speech env request q_text q_character s)) = engine_calls s @ cs \<and>
        length cs \<le> 1 \<and> list_all remove_silence cs"
  by (simp add: text_to_speech_state tts_body_def synthesize_def Let_def
      split: sum.splits prod.splits option.splits)

text \<open>
  C7. A call without a body, with the query parameters \<open>text\<close> and \<open>character\<close>, builds the
  request that carries the percent-decoded text, that character and the default of every
  other field; the handler then behaves as it does on that request given as a body.
\<close>

theorem query_and_body_converge:
  "request_params env None (Some t) (Some c) =
     Inr \<lparr>text = unquote env t, character = c, emotion = py ''default'',
          text_language = default_text_language, format = py ''wav'', top_k = 50.0,
          top_p = 0.95, batch_size = 1, speed = 1.0, temperature = 0.7,
          save_temp = False, stream = False\<rparr> \<and>
   text_to_speech env None (Some t) (Some c) s =
     text_to_speech env
       (Some \<lparr>text = unquote env t, character = c, emotion = py ''default'',
          text_language = default_text_language, format = py ''wav'', top_k = 50.0,
          top_p = 0.95, batch_size = 1, speed = 1.0, temperature = 0.7,
          save_temp = False, stream = False\<rparr>) q_text q_character s"
  by (simp add: text_to_speech_def tts_body_def request_params_def TTSRequest_init_def
      no_kwargs_def or_default_def)

text \<open>
  C1, evaluated on the code. The three \<open>HTTPException(status_code=400, ...)\<close> are raised
  inside the \<open>try\<close> statement, and \<open>HTTPException\<close> is an \<open>Exception\<close>: the \<open>except\<close> clause
  catches each of them and raises status 500 with the detail \<open>str(e)\<close>. An empty text, an
  unsupported language and an absent character are all answered with 500.
\<close>

theorem validation_failures_answer_500:
  "fst (text_to_speech demo_env (Some (demo_request [] ''alice'' english)) None None empty_state)
     = Inl (HTTPException 500 (py ''400: Text is required'')) \<and>
   fst (text_to_speech demo_env (Some (demo_request ''x'' ''alice'' (py ''Klingon''))) None None
          empty_state)
     = Inl (HTTPException 500 (py ''400: Unsupported language: Klingon'')) \<and>
   fst (text_to_speech demo_env (Some (demo_request ''x'' ''bob'' default_text_language)) None None
          empty_state)
     = Inl (HTTPException 500 (py ''400: Character not found: bob''))"
proof -
  have a: "fst (text_to_speech demo_env (Some (demo_request [] ''alice'' english)) None None empty_state)
     = Inl (HTTPException 500 (py ''400: '' @ py ''Text is required''))"
    by (simp add: text_to_speech_def tts_body_def request_params_def demo_request_fields
        str_exc_def demo_str_400) (simp add: py_def)
  have b: "fst (text_to_speech demo_env (Some (demo_request ''x'' ''alice'' (py ''Klingon''))) None None
          empty_state)
     = Inl (HTTPException 500 (py ''400: '' @ py ''Unsupported language: '' @ py ''Klingon''))"
    by (simp add: text_to_speech_def tts_body_def request_params_def demo_request_fields
        py_nonempty demo_languages klingon_unsupported str_exc_def demo_str_400)
  have c: "fst (text_to_speech demo_env (Some (demo_request ''x'' ''bob'' default_text_language)) None None
          empty_state)
     = Inl (HTTPException 500 (py ''400: '' @ py ''Character not found: '' @ py ''bob''))"
    by (simp add: text_to_speech_def tts_body_def request_params_def demo_request_fields
        py_nonempty demo_languages default_language_supported demo_bob_paths str_exc_def
        demo_str_400)
  show ?thesis
    unfolding a b c by (simp add: py_def)
qed

text \<open>
  C3, evaluated on the code. The name \<open>BackgroundTask\<close> is not imported, so building the
  \<open>FileResponse\<close> raises \<open>NameError\<close>: the valid request of the specification's scenario is
  answered with status 500, not with the audio.
\<close>

theorem valid_request_answers_500:
  "fst (text_to_speech demo_env (Some (demo_request ''test phrase'' ''alice'' english)) None None
          empty_state)
     = Inl (HTTPException 500 (py ''name 'BackgroundTask' is not defined''))"
  by (simp add: text_to_speech_def demo_alice_body synthesize_def demo_tmp_name Let_def
      demo_infer demo_sf_write load_BackgroundTask str_exc_def)

text \<open>
  C2, evaluated on the code. After the same request the handler has raised, so no
  response and no background task exist, and the temporary file, created with
  \<open>delete=False\<close> and written by the encoder, is still on disk.
\<close>

theorem temporary_file_left_on_disk:
  "isl (fst (text_to_speech demo_env (Some (demo_request ''test phrase'' ''alice'' english))
          None None empty_state)) \<and>
   tmp_files (snd (text_to_speech demo_env (Some (demo_request ''test phrase'' ''alice'' english))
          None None empty_state))
     = [(py ''/tmp/tmpk3v9x1.wav'', bytes_of ''RIFF'')]"
  by (simp add: text_to_speech_def demo_alice_body synthesize_def demo_tmp_name Let_def
      demo_infer demo_sf_write load_BackgroundTask str_exc_def)
     (simp add: empty_state_def)

end
